theory Spec2Isabelle
  imports Main "HOL-Library.Word"
begin

section \<open>Strings of the source language\<close>

text \<open>
  A string of the source is a sequence of UTF-16 code units. A literal of the source
  that is plain ASCII is written with \<open>lit\<close>; a character outside ASCII is given by
  its code units.
\<close>

type_synonym jsstring = "16 word list"

definition lit :: "string \<Rightarrow> jsstring" where
  "lit s = map of_char s"

text \<open>\<^verbatim>\<open>s.startsWith(p)\<close>, \<^verbatim>\<open>s.endsWith(p)\<close> and \<^verbatim>\<open>s.includes(p)\<close>.\<close>

fun startsWith :: "'a list \<Rightarrow> 'a list \<Rightarrow> bool" where
  "startsWith s [] = True"
| "startsWith [] (p # ps) = False"
| "startsWith (x # xs) (p # ps) = (x = p \<and> startsWith xs ps)"

definition endsWith :: "'a list \<Rightarrow> 'a list \<Rightarrow> bool" where
  "endsWith s p = startsWith (rev s) (rev p)"

fun includes_str :: "'a list \<Rightarrow> 'a list \<Rightarrow> bool" where
  "includes_str [] p = (p = [])"
| "includes_str (x # xs) p = (startsWith (x # xs) p \<or> includes_str xs p)"

text \<open>
  \<^verbatim>\<open>s.replace(pat, rep)\<close> with a string pattern: only the first occurrence of
  \<open>pat\<close> is replaced.
\<close>

fun replace :: "'a list \<Rightarrow> 'a list \<Rightarrow> 'a list \<Rightarrow> 'a list" where
  "replace [] pat rep = (if pat = [] then rep else [])"
| "replace (x # xs) pat rep =
     (if startsWith (x # xs) pat then rep @ drop (length pat) (x # xs)
      else x # replace xs pat rep)"

section \<open>The guild, as the service sees it\<close>

type_synonym snowflake = jsstring

record channel =
  ch_id :: snowflake
  ch_name :: jsstring
  ch_type :: nat
  ch_parentId :: "snowflake option"

record role =
  role_id :: snowflake
  role_name :: jsstring
  role_color :: jsstring

text \<open>The select menu that \<open>handleBecomeHelper\<close> builds.\<close>

record select_option =
  opt_label :: jsstring
  opt_value :: snowflake

record select_menu =
  custom_id :: jsstring
  placeholder :: jsstring
  min_values :: nat
  menu_options :: "select_option list"

text \<open>
  Every call that leaves the process: creating a channel or a role, granting a role to
  the requesting member, and the messages of the interaction. \<open>Reply\<close> carries the
  content, the ephemeral flag and the components of \<^verbatim>\<open>this.interaction.reply\<close>;
  \<open>ComponentReply\<close> and \<open>ComponentFollowUp\<close> are \<^verbatim>\<open>reply\<close> and \<^verbatim>\<open>followUp\<close> on
  the select interaction that was collected.
\<close>

datatype request =
    ChannelsCreate jsstring nat "snowflake option"
  | RolesCreate jsstring jsstring
  | MemberRolesAdd snowflake
  | Reply jsstring bool "select_menu list"
  | DeleteReply
  | DeferReply
  | EditReply jsstring
  | ComponentReply jsstring bool
  | ComponentFollowUp jsstring

text \<open>
  A remote call either resolves (for a creation, with the identifier the platform gave
  the new object) or rejects.
\<close>

datatype outcome = Resolves snowflake | Rejects

datatype error =
    ValidationError jsstring
  | SubjectAlreadyExists
  | RemoteError
  | CollectorTimeout
  | TypeError

text \<open>
  The state that the handlers read and change: the channel and role caches of the
  guild, the roles the requesting member holds, and the field
  \<^verbatim>\<open>categoryChannelId\<close> of the service object (\<open>None\<close> while it is undefined).
  \<open>remote\<close> says how the platform answers the n-th remote call of the run, and
  \<open>trace\<close> records every remote call made so far with its answer. The interaction
  is one of a guild: \<^verbatim>\<open>interaction.guild\<close> and \<^verbatim>\<open>interaction.member\<close> are present.
\<close>

record state =
  channels :: "channel list"
  roles :: "role list"
  member_roles :: "snowflake list"
  categoryChannelId :: "snowflake option"
  remote :: "nat \<Rightarrow> outcome"
  trace :: "(request \<times> outcome) list"

text \<open>
  What the source imports and this development takes as given: the constants of
  \<^verbatim>\<open>constants/channels\<close> and \<^verbatim>\<open>constants/inputIds\<close>, the validation of
  \<^verbatim>\<open>helperSchema\<close> (\<open>Inl\<close> the message of the error it throws), the case mappings of
  the language's strings, and the \<^verbatim>\<open>url\<close> getter of a channel.
\<close>

record subject_options =
  color :: jsstring
  emoji :: jsstring
  name :: jsstring

record 'v env =
  CATEGORY_CHANNEL_NAME :: jsstring
  CATEGORY_CHANNEL_TYPE :: nat
  FORUM_CHANNEL_TYPE :: nat
  SELECT_HELPER_ROLES_ID :: jsstring
  validate :: "(jsstring \<rightharpoonup> 'v) \<Rightarrow> jsstring + subject_options"
  toLowerCase :: "jsstring \<Rightarrow> jsstring"
  toUpperCase :: "jsstring \<Rightarrow> jsstring"
  url :: "channel \<Rightarrow> jsstring"

record 'v interaction =
  user_id :: snowflake
  user_displayName :: jsstring
  options_data :: "(jsstring \<times> 'v) list"

text \<open>A component interaction that reaches the collector: its author and its values.\<close>

record component_interaction =
  ci_user_id :: snowflake
  ci_values :: "snowflake list"

section \<open>Remote calls\<close>

definition request_remote :: "request \<Rightarrow> state \<Rightarrow> outcome \<times> state" where
  "request_remote rq s =
     (let out = remote s (length (trace s))
      in (out, s\<lparr>trace := trace s @ [(rq, out)]\<rparr>))"

text \<open>An awaited message call: a rejection is thrown.\<close>

definition send :: "request \<Rightarrow> state \<Rightarrow> (error + unit) \<times> state" where
  "send rq s =
     (case request_remote rq s of
        (Rejects, s') \<Rightarrow> (Inl RemoteError, s')
      | (Resolves _, s') \<Rightarrow> (Inr (), s'))"

text \<open>
  \<^verbatim>\<open>guild.channels.create\<close>: the new channel has the requested name, type and
  parent and the identifier the platform assigned, and is in the cache afterwards.
\<close>

definition channels_create ::
  "jsstring \<Rightarrow> nat \<Rightarrow> snowflake option \<Rightarrow> state \<Rightarrow> (error + channel) \<times> state" where
  "channels_create nm ty parent s =
     (case request_remote (ChannelsCreate nm ty parent) s of
        (Rejects, s') \<Rightarrow> (Inl RemoteError, s')
      | (Resolves i, s') \<Rightarrow>
          (let c = \<lparr>ch_id = i, ch_name = nm, ch_type = ty, ch_parentId = parent\<rparr>
           in (Inr c, s'\<lparr>channels := channels s' @ [c]\<rparr>)))"

definition roles_create :: "jsstring \<Rightarrow> jsstring \<Rightarrow> state \<Rightarrow> (error + role) \<times> state" where
  "roles_create nm col s =
     (case request_remote (RolesCreate nm col) s of
        (Rejects, s') \<Rightarrow> (Inl RemoteError, s')
      | (Resolves i, s') \<Rightarrow>
          (let r = \<lparr>role_id = i, role_name = nm, role_color = col\<rparr>
           in (Inr r, s'\<lparr>roles := roles s' @ [r]\<rparr>)))"

text \<open>\<^verbatim>\<open>member.roles.add\<close>: on success the member holds the role.\<close>

definition member_roles_add :: "snowflake \<Rightarrow> state \<Rightarrow> (error + unit) \<times> state" where
  "member_roles_add rid s =
     (case request_remote (MemberRolesAdd rid) s of
        (Rejects, s') \<Rightarrow> (Inl RemoteError, s')
      | (Resolves _, s') \<Rightarrow> (Inr (), s'\<lparr>member_roles := member_roles s' @ [rid]\<rparr>))"

section \<open>SubjectHelperService\<close>

subsection \<open>getCategoryId\<close>

text \<open>
  \<^verbatim>\<open>if (this.categoryChannelId) return this.categoryChannelId\<close>: the field is truthy
  when it is defined and not the empty string.
\<close>

definition getCategoryId :: "'v env \<Rightarrow> state \<Rightarrow> (error + snowflake) \<times> state" where
  "getCategoryId env s =
     (case categoryChannelId s of
        Some (u # us) \<Rightarrow> (Inr (u # us), s)
      | _ \<Rightarrow>
          (case find (\<lambda>c. ch_type c = CATEGORY_CHANNEL_TYPE env
                          \<and> ch_name c = CATEGORY_CHANNEL_NAME env) (channels s) of
             None \<Rightarrow>
               (case channels_create (CATEGORY_CHANNEL_NAME env) (CATEGORY_CHANNEL_TYPE env) None s of
                  (Inl e, s') \<Rightarrow> (Inl e, s')
                | (Inr newCategory, s') \<Rightarrow>
                    (Inr (ch_id newCategory), s'\<lparr>categoryChannelId := Some (ch_id newCategory)\<rparr>))
           | Some category \<Rightarrow>
               (Inr (ch_id category), s\<lparr>categoryChannelId := Some (ch_id category)\<rparr>)))"

subsection \<open>getOptions\<close>

text \<open>
  The options of the interaction are copied into an object, a later option of the same
  name overwriting an earlier one, and the object is validated. When the validation
  throws, the message is replied (awaited) and the error thrown again.
\<close>

definition optionsObject :: "(jsstring \<times> 'v) list \<Rightarrow> (jsstring \<rightharpoonup> 'v)" where
  "optionsObject opts = fold (\<lambda>option obj. obj(fst option \<mapsto> snd option)) opts Map.empty"

definition getOptions ::
  "'v env \<Rightarrow> 'v interaction \<Rightarrow> state \<Rightarrow> (error + subject_options) \<times> state" where
  "getOptions env ix s =
     (case validate env (optionsObject (options_data ix)) of
        Inr cleanedSchema \<Rightarrow> (Inr cleanedSchema, s)
      | Inl message \<Rightarrow>
          (case send (Reply (lit ''Error: '' @ message) True []) s of
             (Inl e, s') \<Rightarrow> (Inl e, s')
           | (Inr _, s') \<Rightarrow> (Inl (ValidationError message), s')))"

subsection \<open>isSubjectNameUnique\<close>

text \<open>
  The source filters the channel cache and then reads the property \<^verbatim>\<open>values\<close> of
  the filtered collection without calling it. That is the function
  \<^verbatim>\<open>Map.prototype.values\<close> itself, and the \<^verbatim>\<open>length\<close> of a function is the number
  of parameters it declares: none. \<^verbatim>\<open>!channels.length\<close> negates the truth value of
  that number.
\<close>

datatype function_object = Function nat

definition collection_values :: "'a list \<Rightarrow> function_object" where
  "collection_values coll = Function 0"

fun function_length :: "function_object \<Rightarrow> nat" where
  "function_length (Function n) = n"

definition truthy_number :: "nat \<Rightarrow> bool" where
  "truthy_number n = (n \<noteq> 0)"

definition isSubjectNameUnique ::
  "'v env \<Rightarrow> jsstring \<Rightarrow> state \<Rightarrow> (error + bool) \<times> state" where
  "isSubjectNameUnique env subjectName s =
     (case getCategoryId env s of
        (Inl e, s') \<Rightarrow> (Inl e, s')
      | (Inr categoryId, s') \<Rightarrow>
          (let chans = collection_values
                 (filter (\<lambda>c. ch_parentId c = Some categoryId
                             \<and> includes_str (ch_name c) (toLowerCase env subjectName))
                    (channels s'))
           in (Inr (\<not> truthy_number (function_length chans)), s')))"

subsection \<open>createSubjectForum and createSubjectRole\<close>

definition createSubjectForum ::
  "'v env \<Rightarrow> jsstring \<Rightarrow> jsstring \<Rightarrow> state \<Rightarrow> (error + channel) \<times> state" where
  "createSubjectForum env subjectName emo s =
     (case getCategoryId env s of
        (Inl e, s') \<Rightarrow> (Inl e, s')
      | (Inr categoryId, s') \<Rightarrow>
          channels_create (emo @ lit ''-'' @ subjectName) (FORUM_CHANNEL_TYPE env)
            (Some categoryId) s')"

definition createSubjectRole ::
  "'v env \<Rightarrow> jsstring \<Rightarrow> jsstring \<Rightarrow> state \<Rightarrow> (error + role) \<times> state" where
  "createSubjectRole env subjectName col s =
     roles_create (toLowerCase env subjectName @ lit ''-helper'') col s"

subsection \<open>handleCreateSubject\<close>

text \<open>
  The reply in the duplicate branch is not awaited: it is sent, its answer is not
  looked at, and the error is thrown.
\<close>

definition handleCreateSubject ::
  "'v env \<Rightarrow> 'v interaction \<Rightarrow> state \<Rightarrow> (error + unit) \<times> state" where
  "handleCreateSubject env ix s =
     (case getOptions env ix s of
        (Inl e, s1) \<Rightarrow> (Inl e, s1)
      | (Inr opts, s1) \<Rightarrow>
          (case isSubjectNameUnique env (name opts) s1 of
             (Inl e, s2) \<Rightarrow> (Inl e, s2)
           | (Inr unique, s2) \<Rightarrow>
               if \<not> unique
               then (Inl SubjectAlreadyExists,
                     snd (request_remote (Reply (lit ''Subject already exists!'') True []) s2))
               else
                 (case createSubjectForum env (name opts) (emoji opts) s2 of
                    (Inl e, s3) \<Rightarrow> (Inl e, s3)
                  | (Inr forum, s3) \<Rightarrow>
                      (case createSubjectRole env (name opts) (color opts) s3 of
                         (Inl e, s4) \<Rightarrow> (Inl e, s4)
                       | (Inr rl, s4) \<Rightarrow>
                           send (Reply (lit ''Subject '' @ url env forum @ lit '' and role **''
                                        @ role_name rl @ lit ''** created!'') False []) s4))))"

subsection \<open>handleBecomeHelper\<close>

record helper_role =
  hr_id :: snowflake
  hr_role :: jsstring
  hr_subject :: jsstring

text \<open>
  The roles whose name ends with \<^verbatim>\<open>-helper\<close>. Such a name is not empty, so
  \<^verbatim>\<open>r.name[0]\<close> is its first code unit; \<^verbatim>\<open>r.name.slice(1)\<close> is the rest, in which the
  first occurrence of \<^verbatim>\<open>-helper\<close> is removed.
\<close>

definition helperRoles :: "'v env \<Rightarrow> state \<Rightarrow> helper_role list" where
  "helperRoles env s =
     map (\<lambda>r. \<lparr>hr_id = role_id r, hr_role = role_name r,
               hr_subject = toUpperCase env (take 1 (role_name r))
                            @ replace (drop 1 (role_name r)) (lit ''-helper'') []\<rparr>)
       (filter (\<lambda>r. endsWith (role_name r) (lit ''-helper'')) (roles s))"

definition subjectSelect :: "'v env \<Rightarrow> helper_role list \<Rightarrow> select_menu" where
  "subjectSelect env hrs =
     \<lparr>custom_id = SELECT_HELPER_ROLES_ID env,
      placeholder = lit ''Select a subject to become a helper'',
      min_values = 0,
      menu_options = map (\<lambda>r. \<lparr>opt_label = hr_subject r, opt_value = hr_id r\<rparr>) hrs\<rparr>"

text \<open>The ephemeral reply that carries the select menu.\<close>

definition selectPrompt :: "'v env \<Rightarrow> helper_role list \<Rightarrow> request" where
  "selectPrompt env hrs =
     Reply (lit ''Please select one or more subjects'') True [subjectSelect env hrs]"

definition collectorFilter :: "'v interaction \<Rightarrow> component_interaction \<Rightarrow> bool" where
  "collectorFilter ix i = (ci_user_id i = user_id ix)"

text \<open>
  \<^verbatim>\<open>response.awaitMessageComponent({filter, time: 10000})\<close>: given the component
  interactions that arrive on the response within the time, in their order, the call
  resolves with the first one that passes the filter and rejects when there is none.
\<close>

definition awaitMessageComponent ::
  "(component_interaction \<Rightarrow> bool) \<Rightarrow> component_interaction list
   \<Rightarrow> error + component_interaction" where
  "awaitMessageComponent flt arrivals =
     (case find flt arrivals of None \<Rightarrow> Inl CollectorTimeout | Some i \<Rightarrow> Inr i)"

text \<open>
  \<^verbatim>\<open>helperRoles.find((r) => r.id === selectedSubjects.values[0])\<close>: with no value,
  \<^verbatim>\<open>values[0]\<close> is undefined and equals no identifier.
\<close>

definition findSelectedRole :: "helper_role list \<Rightarrow> snowflake list \<Rightarrow> helper_role option" where
  "findSelectedRole hrs vals =
     (case vals of [] \<Rightarrow> None | v # _ \<Rightarrow> find (\<lambda>r. hr_id r = v) hrs)"

text \<open>
  Everything after the prompt is inside \<^verbatim>\<open>try\<close>, and the \<^verbatim>\<open>catch\<close> block throws the
  error it caught again: each error is the result of the handler. \<^verbatim>\<open>deleteReply\<close> and
  the reply of the branch that finds the role already held are not awaited. Reading
  \<^verbatim>\<open>selectedRole.id\<close> when no role was found is a TypeError.
\<close>

definition handleBecomeHelper ::
  "'v env \<Rightarrow> 'v interaction \<Rightarrow> component_interaction list \<Rightarrow> state
   \<Rightarrow> (error + unit) \<times> state" where
  "handleBecomeHelper env ix arrivals s =
     (let hrs = helperRoles env s in
      case send (selectPrompt env hrs) s of
        (Inl e, s1) \<Rightarrow> (Inl e, s1)
      | (Inr _, s1) \<Rightarrow>
          (case awaitMessageComponent (collectorFilter ix) arrivals of
             Inl err \<Rightarrow> (Inl err, s1)
           | Inr selectedSubjects \<Rightarrow>
               (let s2 = snd (request_remote DeleteReply s1) in
                case findSelectedRole hrs (ci_values selectedSubjects) of
                  None \<Rightarrow> (Inl TypeError, s2)
                | Some selectedRole \<Rightarrow>
                    if hr_id selectedRole \<in> set (member_roles s2)
                    then (Inr (),
                          snd (request_remote
                                 (ComponentReply (lit ''You already have the role ''
                                    @ hr_role selectedRole
                                    @ lit ''! So I won't add it again.'') True) s2))
                    else
                      (case member_roles_add (hr_id selectedRole) s2 of
                         (Inl e, s3) \<Rightarrow> (Inl e, s3)
                       | (Inr _, s3) \<Rightarrow>
                           (case send (ComponentReply
                                   (lit ''Congrats on becoming a helper in ''
                                    @ hr_subject selectedRole
                                    @ lit ''! Thanks for helping out the community <3.''
                                    @ [0x0A]
                                    @ lit ''You have been promoted to ''
                                    @ hr_role selectedRole
                                    @ lit '' and will be pinged whenever someone posts in the ''
                                    @ hr_subject selectedRole
                                    @ lit '' forum channel.'') True) s3 of
                              (Inl e, s4) \<Rightarrow> (Inl e, s4)
                            | (Inr _, s4) \<Rightarrow>
                                send (ComponentFollowUp
                                   (lit ''Congrats to '' @ user_displayName ix
                                    @ lit '' for becoming a helper in ''
                                    @ hr_subject selectedRole @ lit ''!'')) s4)))))"

section \<open>SlaveWhipperService\<close>

text \<open>
  \<^verbatim>\<open>isHelperThread\<close> and \<^verbatim>\<open>helperThreadToRoleName\<close> are imported functions and are
  parameters here; the second may throw, return nothing, or return a role. The
  condition of the \<^verbatim>\<open>if\<close> is the imported function \<^verbatim>\<open>isHelperThread\<close> itself, not
  a call of it, and a function is truthy.
\<close>

definition truthy_function :: "('a \<Rightarrow> 'b) \<Rightarrow> bool" where
  "truthy_function f = True"

definition refusal :: jsstring where
  "refusal = lit ''Please don't whip the slaves outside of threads''"

definition handleWhipSlaves ::
  "('t \<Rightarrow> bool) \<Rightarrow> ('t \<Rightarrow> error + role option) \<Rightarrow> 't \<Rightarrow> state \<Rightarrow> (error + unit) \<times> state" where
  "handleWhipSlaves isHelperThread helperThreadToRoleName thread s =
     (case send DeferReply s of
        (Inl e, s1) \<Rightarrow> (Inl e, s1)
      | (Inr _, s1) \<Rightarrow>
          (case helperThreadToRoleName thread of
             Inl e \<Rightarrow> (Inl e, s1)
           | Inr rl \<Rightarrow>
               if truthy_function isHelperThread
               then (case rl of
                       None \<Rightarrow> (Inl TypeError, s1)
                     | Some r \<Rightarrow>
                         send (EditReply (lit ''<@&'' @ role_id r @ lit ''>, get to work! ''
                                          @ [0xD80C, 0xDC13, 0xD80C, 0xDC1D])) s1)
               else send (EditReply refusal) s1))"

section \<open>A sample guild for the worked examples\<close>

text \<open>
  The examples run the handlers on concrete inputs. They need some instance of what
  the development takes as given: a category named \<^verbatim>\<open>Subjects\<close>, the channel kinds
  4 and 15, a validation that requires the three options, the case mappings on ASCII
  letters, and a platform that resolves the n-th call with the identifier made of
  n + 1 digits 1.
\<close>

definition ascii_lower :: "jsstring \<Rightarrow> jsstring" where
  "ascii_lower = map (\<lambda>u. if 0x41 \<le> u \<and> u \<le> 0x5A then u + 0x20 else u)"

definition ascii_upper :: "jsstring \<Rightarrow> jsstring" where
  "ascii_upper = map (\<lambda>u. if 0x61 \<le> u \<and> u \<le> 0x7A then u - 0x20 else u)"

definition sample_validate :: "(jsstring \<rightharpoonup> jsstring) \<Rightarrow> jsstring + subject_options" where
  "sample_validate obj =
     (case obj (lit ''name'') of
        None \<Rightarrow> Inl (lit ''name is a required field'')
      | Some n \<Rightarrow>
          (case obj (lit ''color'') of
             None \<Rightarrow> Inl (lit ''color is a required field'')
           | Some c \<Rightarrow>
               (case obj (lit ''emoji'') of
                  None \<Rightarrow> Inl (lit ''emoji is a required field'')
                | Some e \<Rightarrow> Inr \<lparr>color = c, emoji = e, name = n\<rparr>)))"

definition sample_env :: "jsstring env" where
  "sample_env =
     \<lparr>CATEGORY_CHANNEL_NAME = lit ''Subjects'', CATEGORY_CHANNEL_TYPE = 4,
      FORUM_CHANNEL_TYPE = 15, SELECT_HELPER_ROLES_ID = lit ''select-helper-roles'',
      validate = sample_validate, toLowerCase = ascii_lower, toUpperCase = ascii_upper,
      url = (\<lambda>c. lit ''https://discord.com/channels/1/'' @ ch_id c)\<rparr>"

definition sample_platform :: "nat \<Rightarrow> outcome" where
  "sample_platform n = Resolves (replicate (Suc n) 0x31)"

definition subjects_category :: channel where
  "subjects_category =
     \<lparr>ch_id = lit ''100'', ch_name = lit ''Subjects'', ch_type = 4, ch_parentId = None\<rparr>"

definition empty_guild :: state where
  "empty_guild =
     \<lparr>channels = [], roles = [], member_roles = [], categoryChannelId = None,
      remote = sample_platform, trace = []\<rparr>"

definition guild_with_category :: state where
  "guild_with_category = empty_guild\<lparr>channels := [subjects_category]\<rparr>"

definition math_study :: channel where
  "math_study =
     \<lparr>ch_id = lit ''200'', ch_name = lit ''calculus-math-study'', ch_type = 15,
      ch_parentId = Some (lit ''100'')\<rparr>"

definition guild_with_math_study :: state where
  "guild_with_math_study = empty_guild\<lparr>channels := [subjects_category, math_study]\<rparr>"

text \<open>The second remote call of the run is rejected.\<close>

definition guild_rejecting_second :: state where
  "guild_rejecting_second =
     guild_with_category\<lparr>remote := (\<lambda>n. if n = 1 then Rejects else sample_platform n)\<rparr>"

definition dna :: jsstring where
  "dna = [0xD83E, 0xDDEC]"

definition biology_request :: "jsstring interaction" where
  "biology_request =
     \<lparr>user_id = lit ''7'', user_displayName = lit ''Ada'',
      options_data = [(lit ''name'', lit ''Biology''), (lit ''color'', lit ''#00FF00''),
                      (lit ''emoji'', dna)]\<rparr>"

definition biology_options :: subject_options where
  "biology_options = \<lparr>color = lit ''#00FF00'', emoji = dna, name = lit ''Biology''\<rparr>"

definition math_request :: "jsstring interaction" where
  "math_request =
     \<lparr>user_id = lit ''7'', user_displayName = lit ''Ada'',
      options_data = [(lit ''name'', lit ''Math''), (lit ''color'', lit ''#00FF00''),
                      (lit ''emoji'', dna)]\<rparr>"

definition nameless_request :: "jsstring interaction" where
  "nameless_request =
     \<lparr>user_id = lit ''7'', user_displayName = lit ''Ada'',
      options_data = [(lit ''color'', lit ''#00FF00''), (lit ''emoji'', dna)]\<rparr>"

text \<open>The empty guild after the category was created in it.\<close>

definition resolved_guild :: state where
  "resolved_guild =
     empty_guild
       \<lparr>trace := [(ChannelsCreate (lit ''Subjects'') 4 None, Resolves [0x31])],
        channels := [\<lparr>ch_id = [0x31], ch_name = lit ''Subjects'', ch_type = 4,
                      ch_parentId = None\<rparr>],
        categoryChannelId := Some [0x31]\<rparr>"

text \<open>
  A guild with one helper role, the requester Ada (user 7) and another user (user 8),
  and a thread for the notification flow.
\<close>

definition math_helper :: role where
  "math_helper =
     \<lparr>role_id = lit ''300'', role_name = lit ''math-helper'', role_color = lit ''#00FF00''\<rparr>"

definition math_helper_entry :: helper_role where
  "math_helper_entry =
     \<lparr>hr_id = lit ''300'', hr_role = lit ''math-helper'', hr_subject = lit ''Math''\<rparr>"

definition helpers_guild :: state where
  "helpers_guild = empty_guild\<lparr>roles := [math_helper]\<rparr>"

definition ada :: "jsstring interaction" where
  "ada = \<lparr>user_id = lit ''7'', user_displayName = lit ''Ada'', options_data = []\<rparr>"

definition ada_selects_math :: component_interaction where
  "ada_selects_math = \<lparr>ci_user_id = lit ''7'', ci_values = [lit ''300'']\<rparr>"

definition ada_selects_nothing :: component_interaction where
  "ada_selects_nothing = \<lparr>ci_user_id = lit ''7'', ci_values = []\<rparr>"

definition other_selects_math :: component_interaction where
  "other_selects_math = \<lparr>ci_user_id = lit ''8'', ci_values = [lit ''300'']\<rparr>"

definition math_prompt :: request where
  "math_prompt = selectPrompt sample_env [math_helper_entry]"

definition already_math :: request where
  "already_math =
     ComponentReply (lit ''You already have the role math-helper! So I won't add it again.'')
       True"

text \<open>The guild after Ada's first run of the enrollment flow with the math role selected.\<close>

definition guild_after_grant :: state where
  "guild_after_grant = snd (handleBecomeHelper sample_env ada [ada_selects_math] helpers_guild)"

section \<open>Remote calls, by their answer\<close>

lemma request_remote_eq:
  "request_remote rq s =
     (remote s (length (trace s)),
      s\<lparr>trace := trace s @ [(rq, remote s (length (trace s)))]\<rparr>)"
  by (simp add: request_remote_def Let_def)

lemma send_Resolves:
  "remote s (length (trace s)) = Resolves m \<Longrightarrow>
   send rq s = (Inr (), s\<lparr>trace := trace s @ [(rq, Resolves m)]\<rparr>)"
  by (simp add: send_def request_remote_eq)

lemma send_Rejects:
  "remote s (length (trace s)) = Rejects \<Longrightarrow>
   send rq s = (Inl RemoteError, s\<lparr>trace := trace s @ [(rq, Rejects)]\<rparr>)"
  by (simp add: send_def request_remote_eq)

lemma channels_create_Resolves:
  "remote s (length (trace s)) = Resolves i \<Longrightarrow>
   channels_create nm ty parent s =
     (Inr \<lparr>ch_id = i, ch_name = nm, ch_type = ty, ch_parentId = parent\<rparr>,
      s\<lparr>trace := trace s @ [(ChannelsCreate nm ty parent, Resolves i)],
        channels := channels s @ [\<lparr>ch_id = i, ch_name = nm, ch_type = ty, ch_parentId = parent\<rparr>]\<rparr>)"
  by (simp add: channels_create_def request_remote_eq Let_def)

lemma channels_create_Rejects:
  "remote s (length (trace s)) = Rejects \<Longrightarrow>
   channels_create nm ty parent s =
     (Inl RemoteError, s\<lparr>trace := trace s @ [(ChannelsCreate nm ty parent, Rejects)]\<rparr>)"
  by (simp add: channels_create_def request_remote_eq)

lemma roles_create_Resolves:
  "remote s (length (trace s)) = Resolves i \<Longrightarrow>
   roles_create nm col s =
     (Inr \<lparr>role_id = i, role_name = nm, role_color = col\<rparr>,
      s\<lparr>trace := trace s @ [(RolesCreate nm col, Resolves i)],
        roles := roles s @ [\<lparr>role_id = i, role_name = nm, role_color = col\<rparr>]\<rparr>)"
  by (simp add: roles_create_def request_remote_eq Let_def)

lemma roles_create_Rejects:
  "remote s (length (trace s)) = Rejects \<Longrightarrow>
   roles_create nm col s =
     (Inl RemoteError, s\<lparr>trace := trace s @ [(RolesCreate nm col, Rejects)]\<rparr>)"
  by (simp add: roles_create_def request_remote_eq)

lemma member_roles_add_Resolves:
  "remote s (length (trace s)) = Resolves m \<Longrightarrow>
   member_roles_add rid s =
     (Inr (), s\<lparr>trace := trace s @ [(MemberRolesAdd rid, Resolves m)],
                member_roles := member_roles s @ [rid]\<rparr>)"
  by (simp add: member_roles_add_def request_remote_eq)

section \<open>The category resolver\<close>

lemma find_append_None:
  "find P xs = None \<Longrightarrow> find P (xs @ [y]) = (if P y then Some y else None)"
  by (induction xs) (auto split: if_splits)

lemma find_Some_mem: "find P xs = Some x \<Longrightarrow> x \<in> set xs \<and> P x"
  by (induction xs) (auto split: if_splits)

lemma find_None_iff_no: "find P xs = None \<longleftrightarrow> \<not> (\<exists>x\<in>set xs. P x)"
  by (induction xs) auto

text \<open>While the field is falsy, the resolver looks the category up and creates it if absent.\<close>

lemma getCategoryId_falsy:
  assumes "categoryChannelId s = None \<or> categoryChannelId s = Some []"
  shows "getCategoryId env s =
    (case find (\<lambda>c. ch_type c = CATEGORY_CHANNEL_TYPE env
                    \<and> ch_name c = CATEGORY_CHANNEL_NAME env) (channels s) of
       Some category \<Rightarrow>
         (Inr (ch_id category), s\<lparr>categoryChannelId := Some (ch_id category)\<rparr>)
     | None \<Rightarrow>
        (case remote s (length (trace s)) of
           Rejects \<Rightarrow>
             (Inl RemoteError,
              s\<lparr>trace := trace s @ [(ChannelsCreate (CATEGORY_CHANNEL_NAME env)
                                        (CATEGORY_CHANNEL_TYPE env) None, Rejects)]\<rparr>)
         | Resolves i \<Rightarrow>
             (Inr i,
              s\<lparr>trace := trace s @ [(ChannelsCreate (CATEGORY_CHANNEL_NAME env)
                                        (CATEGORY_CHANNEL_TYPE env) None, Resolves i)],
                channels := channels s @
                  [\<lparr>ch_id = i, ch_name = CATEGORY_CHANNEL_NAME env,
                    ch_type = CATEGORY_CHANNEL_TYPE env, ch_parentId = None\<rparr>],
                categoryChannelId := Some i\<rparr>)))"
  using assms
  by (auto simp: getCategoryId_def channels_create_Resolves channels_create_Rejects
      split: option.splits outcome.splits)

lemma getCategoryId_truthy:
  "categoryChannelId s = Some (u # us) \<Longrightarrow> getCategoryId env s = (Inr (u # us), s)"
  by (simp add: getCategoryId_def)

text \<open>A second resolution on the same service object returns the same identifier and changes nothing.\<close>

lemma getCategoryId_again:
  assumes res: "getCategoryId env s = (Inr i, s1)"
  shows "getCategoryId env s1 = (Inr i, s1)"
proof (cases "categoryChannelId s = None \<or> categoryChannelId s = Some []")
  case falsy: True
  let ?P = "\<lambda>c. ch_type c = CATEGORY_CHANNEL_TYPE env \<and> ch_name c = CATEGORY_CHANNEL_NAME env"
  show ?thesis
  proof (cases "find ?P (channels s)")
    case (Some c)
    with res have s1: "s1 = s\<lparr>categoryChannelId := Some (ch_id c)\<rparr>" and i: "i = ch_id c"
      by (auto simp: getCategoryId_falsy [OF falsy])
    show ?thesis
    proof (cases "ch_id c")
      case Nil
      then show ?thesis using Some
        by (simp add: getCategoryId_falsy s1 i)
    next
      case (Cons u us)
      then show ?thesis
        by (simp add: getCategoryId_truthy s1 i)
    qed
  next
    case None
    with res obtain j where out: "remote s (length (trace s)) = Resolves j"
      by (auto simp: getCategoryId_falsy [OF falsy] split: outcome.splits)
    let ?c = "\<lparr>ch_id = i, ch_name = CATEGORY_CHANNEL_NAME env,
                ch_type = CATEGORY_CHANNEL_TYPE env, ch_parentId = None\<rparr>"
    from None res out have
      s1: "s1 = s\<lparr>trace := trace s @ [(ChannelsCreate (CATEGORY_CHANNEL_NAME env)
                 (CATEGORY_CHANNEL_TYPE env) None, Resolves i)],
                 channels := channels s @ [?c], categoryChannelId := Some i\<rparr>"
      by (auto simp: getCategoryId_falsy [OF falsy])
    have found: "find ?P (channels s1) = Some ?c"
      using None by (simp add: s1 find_append_None)
    show ?thesis
    proof (cases i)
      case Nil
      then have falsy1: "categoryChannelId s1 = None \<or> categoryChannelId s1 = Some []"
        by (simp add: s1)
      have "getCategoryId env s1 = (Inr i, s1\<lparr>categoryChannelId := Some i\<rparr>)"
        by (simp add: getCategoryId_falsy [OF falsy1] found)
      then show ?thesis
        by (simp add: s1)
    next
      case (Cons u us)
      then show ?thesis
        by (simp add: getCategoryId_truthy s1)
    qed
  qed
next
  case False
  then obtain u us where "categoryChannelId s = Some (u # us)"
    by (cases "categoryChannelId s") (auto simp: neq_Nil_conv)
  with res show ?thesis
    by (auto simp: getCategoryId_truthy)
qed

lemma getCategoryId_frame:
  assumes "getCategoryId env s = (r, s1)"
  shows "remote s1 = remote s \<and> roles s1 = roles s \<and> member_roles s1 = member_roles s"
  using assms
  by (auto simp: getCategoryId_def channels_create_def request_remote_eq Let_def
      split: option.splits list.splits outcome.splits)

text \<open>
  Claim C7. On a service object whose field is still undefined, a resolution that
  returns gives the identifier of a channel that has the category name and the
  category kind. When such a channel is in the cache, nothing is created; when none
  is, exactly one creation is requested, with that name and kind and no parent. A
  second resolution on the same object, and a resolution on a new object for the same
  guild, return the same identifier and leave channels and trace as they are: no
  further category is created.
\<close>

theorem getCategoryId_singleton:
  assumes fresh: "categoryChannelId s = None"
      and res: "getCategoryId env s = (Inr i, s1)"
  shows "(\<exists>c\<in>set (channels s1). ch_id c = i \<and> ch_type c = CATEGORY_CHANNEL_TYPE env
            \<and> ch_name c = CATEGORY_CHANNEL_NAME env)
       \<and> ((\<exists>c\<in>set (channels s). ch_type c = CATEGORY_CHANNEL_TYPE env
            \<and> ch_name c = CATEGORY_CHANNEL_NAME env)
          \<longrightarrow> channels s1 = channels s \<and> trace s1 = trace s)
       \<and> (\<not> (\<exists>c\<in>set (channels s). ch_type c = CATEGORY_CHANNEL_TYPE env
            \<and> ch_name c = CATEGORY_CHANNEL_NAME env)
          \<longrightarrow> channels s1 = channels s @ [\<lparr>ch_id = i, ch_name = CATEGORY_CHANNEL_NAME env,
                 ch_type = CATEGORY_CHANNEL_TYPE env, ch_parentId = None\<rparr>]
            \<and> trace s1 = trace s @ [(ChannelsCreate (CATEGORY_CHANNEL_NAME env)
                 (CATEGORY_CHANNEL_TYPE env) None, Resolves i)])
       \<and> getCategoryId env s1 = (Inr i, s1)
       \<and> getCategoryId env (s1\<lparr>categoryChannelId := None\<rparr>) = (Inr i, s1)"
proof -
  let ?P = "\<lambda>c. ch_type c = CATEGORY_CHANNEL_TYPE env \<and> ch_name c = CATEGORY_CHANNEL_NAME env"
  have again: "getCategoryId env s1 = (Inr i, s1)"
    by (rule getCategoryId_again [OF res])
  show ?thesis
  proof (cases "find ?P (channels s)")
    case (Some c)
    with fresh res have s1: "s1 = s\<lparr>categoryChannelId := Some (ch_id c)\<rparr>" and i: "i = ch_id c"
      by (auto simp: getCategoryId_falsy)
    from Some have mem: "c \<in> set (channels s)" "?P c"
      using find_Some_mem [of ?P "channels s" c] by simp_all
    have anew: "getCategoryId env (s1\<lparr>categoryChannelId := None\<rparr>) = (Inr i, s1)"
      using Some by (simp add: getCategoryId_falsy s1 i)
    from mem again anew show ?thesis
      by (auto simp: s1 i)
  next
    case None
    with fresh res obtain j where out: "remote s (length (trace s)) = Resolves j"
      by (auto simp: getCategoryId_falsy split: outcome.splits)
    let ?c = "\<lparr>ch_id = i, ch_name = CATEGORY_CHANNEL_NAME env,
                ch_type = CATEGORY_CHANNEL_TYPE env, ch_parentId = None\<rparr>"
    from None fresh res out have
      s1: "s1 = s\<lparr>trace := trace s @ [(ChannelsCreate (CATEGORY_CHANNEL_NAME env)
                 (CATEGORY_CHANNEL_TYPE env) None, Resolves i)],
                 channels := channels s @ [?c], categoryChannelId := Some i\<rparr>"
      by (auto simp: getCategoryId_falsy)
    have found: "find ?P (channels s1) = Some ?c"
      using None by (simp add: s1 find_append_None)
    have anew: "getCategoryId env (s1\<lparr>categoryChannelId := None\<rparr>) = (Inr i, s1)"
      using found by (simp add: getCategoryId_falsy) (simp add: s1)
    from None have absent: "\<not> (\<exists>c\<in>set (channels s). ?P c)"
      by (simp add: find_None_iff_no)
    from absent again anew show ?thesis
      by (simp add: s1)
  qed
qed

theorem getCategoryId_singleton_witness:
  "categoryChannelId empty_guild = None
   \<and> getCategoryId sample_env empty_guild = (Inr [0x31], resolved_guild)
   \<and> (\<exists>c\<in>set (channels resolved_guild). ch_id c = [0x31] \<and> ch_type c = 4
         \<and> ch_name c = lit ''Subjects'')
   \<and> trace resolved_guild = [(ChannelsCreate (lit ''Subjects'') 4 None, Resolves [0x31])]
   \<and> getCategoryId sample_env resolved_guild = (Inr [0x31], resolved_guild)
   \<and> getCategoryId sample_env (resolved_guild\<lparr>categoryChannelId := None\<rparr>)
       = (Inr [0x31], resolved_guild)"
proof -
  have fresh: "categoryChannelId empty_guild = None"
    by (simp add: empty_guild_def)
  have res: "getCategoryId sample_env empty_guild = (Inr [0x31], resolved_guild)"
    by (simp add: getCategoryId_falsy empty_guild_def resolved_guild_def sample_env_def
        sample_platform_def)
  from getCategoryId_singleton [OF fresh res] fresh res show ?thesis
    by (simp add: sample_env_def empty_guild_def resolved_guild_def)
qed

section \<open>Creating a subject\<close>

text \<open>Whatever the channels are, the uniqueness check answers true.\<close>

lemma isSubjectNameUnique_True:
  "getCategoryId env s = (Inr cid, s1) \<Longrightarrow> isSubjectNameUnique env nm s = (Inr True, s1)"
  by (simp add: isSubjectNameUnique_def collection_values_def truthy_number_def)

lemma getOptions_valid:
  "validate env (optionsObject (options_data ix)) = Inr opts \<Longrightarrow>
   getOptions env ix s = (Inr opts, s)"
  by (simp add: getOptions_def)

lemma createSubjectForum_Resolves:
  assumes cat: "getCategoryId env s = (Inr cid, s1)"
      and ok: "remote s (length (trace s1)) = Resolves fid"
  shows "createSubjectForum env subjectName emo s1 =
    (Inr \<lparr>ch_id = fid, ch_name = emo @ lit ''-'' @ subjectName,
           ch_type = FORUM_CHANNEL_TYPE env, ch_parentId = Some cid\<rparr>,
     s1\<lparr>trace := trace s1 @ [(ChannelsCreate (emo @ lit ''-'' @ subjectName)
                                 (FORUM_CHANNEL_TYPE env) (Some cid), Resolves fid)],
        channels := channels s1 @
          [\<lparr>ch_id = fid, ch_name = emo @ lit ''-'' @ subjectName,
            ch_type = FORUM_CHANNEL_TYPE env, ch_parentId = Some cid\<rparr>]\<rparr>)"
proof -
  from getCategoryId_frame [OF cat] have "remote s1 = remote s"
    by simp
  with ok show ?thesis
    by (simp add: createSubjectForum_def getCategoryId_again [OF cat] channels_create_Resolves)
qed

lemma biology_valid:
  "validate sample_env (optionsObject (options_data biology_request)) = Inr biology_options"
  by (simp add: sample_env_def biology_request_def biology_options_def optionsObject_def
      sample_validate_def lit_def dna_def)

lemma math_study_category:
  "getCategoryId sample_env guild_with_math_study
     = (Inr (lit ''100''), guild_with_math_study\<lparr>categoryChannelId := Some (lit ''100'')\<rparr>)"
  by (simp add: getCategoryId_falsy guild_with_math_study_def empty_guild_def sample_env_def
      subjects_category_def)

lemma rejecting_category:
  "getCategoryId sample_env guild_rejecting_second
     = (Inr (lit ''100''), guild_rejecting_second\<lparr>categoryChannelId := Some (lit ''100'')\<rparr>)"
  by (simp add: getCategoryId_falsy guild_rejecting_second_def guild_with_category_def
      empty_guild_def sample_env_def subjects_category_def)

text \<open>
  Claim C4. Let the options be valid, let the category resolve to \<open>cid\<close>, let no
  channel under it have a name that contains the subject name, both compared in lower
  case, and let the platform resolve the three remote calls that follow. Then
  \<open>handleCreateSubject\<close> returns normally; it adds to the channels exactly one
  channel, of the forum kind, named by the emoji, a hyphen and the name, with the
  category as parent; it adds to the roles exactly one role, named by the lower-cased
  name and \<^verbatim>\<open>-helper\<close>, with the given color; and its reply holds the URL of that
  channel and the name of that role.
\<close>

theorem handleCreateSubject_creates:
  assumes valid: "validate env (optionsObject (options_data ix)) = Inr opts"
      and cat: "getCategoryId env s = (Inr cid, s1)"
      and nodup: "\<forall>c\<in>set (channels s). ch_parentId c = Some cid \<longrightarrow>
                    \<not> includes_str (toLowerCase env (ch_name c)) (toLowerCase env (name opts))"
      and forum_ok: "remote s (length (trace s1)) = Resolves fid"
      and role_ok: "remote s (Suc (length (trace s1))) = Resolves rid"
      and reply_ok: "remote s (Suc (Suc (length (trace s1)))) = Resolves mid"
      and forum: "forum = \<lparr>ch_id = fid, ch_name = emoji opts @ lit ''-'' @ name opts,
                          ch_type = FORUM_CHANNEL_TYPE env, ch_parentId = Some cid\<rparr>"
      and rl: "rl = \<lparr>role_id = rid, role_name = toLowerCase env (name opts) @ lit ''-helper'',
                    role_color = color opts\<rparr>"
  shows "handleCreateSubject env ix s =
           (Inr (), s1\<lparr>channels := channels s1 @ [forum],
                       roles := roles s @ [rl],
                       trace := trace s1 @
                         [(ChannelsCreate (ch_name forum) (FORUM_CHANNEL_TYPE env) (Some cid),
                           Resolves fid),
                          (RolesCreate (role_name rl) (color opts), Resolves rid),
                          (Reply (lit ''Subject '' @ url env forum @ lit '' and role **''
                                  @ role_name rl @ lit ''** created!'') False [],
                           Resolves mid)]\<rparr>)"
proof -
  from getCategoryId_frame [OF cat] have fr: "remote s1 = remote s" "roles s1 = roles s"
    by simp_all
  have uniq: "isSubjectNameUnique env (name opts) s = (Inr True, s1)"
    by (rule isSubjectNameUnique_True [OF cat])
  let ?s2 = "s1\<lparr>trace := trace s1 @ [(ChannelsCreate (ch_name forum) (FORUM_CHANNEL_TYPE env)
                 (Some cid), Resolves fid)], channels := channels s1 @ [forum]\<rparr>"
  have mk: "createSubjectForum env (name opts) (emoji opts) s1 = (Inr forum, ?s2)"
    by (simp add: createSubjectForum_Resolves [OF cat forum_ok] forum)
  let ?s3 = "?s2\<lparr>trace := trace ?s2 @ [(RolesCreate (role_name rl) (color opts), Resolves rid)],
                  roles := roles s @ [rl]\<rparr>"
  have mkr: "createSubjectRole env (name opts) (color opts) ?s2 = (Inr rl, ?s3)"
    by (simp add: createSubjectRole_def roles_create_Resolves fr role_ok rl)
  show ?thesis
    by (simp add: handleCreateSubject_def getOptions_valid [OF valid] uniq mk mkr
        send_Resolves fr reply_ok)
qed

theorem handleCreateSubject_creates_witness:
  "validate sample_env (optionsObject (options_data biology_request)) = Inr biology_options
   \<and> getCategoryId sample_env guild_with_math_study
       = (Inr (lit ''100''), guild_with_math_study\<lparr>categoryChannelId := Some (lit ''100'')\<rparr>)
   \<and> ch_parentId math_study = Some (lit ''100'')
   \<and> \<not> includes_str (ascii_lower (ch_name math_study)) (ascii_lower (lit ''Biology''))
   \<and> fst (handleCreateSubject sample_env biology_request guild_with_math_study) = Inr ()
   \<and> channels (snd (handleCreateSubject sample_env biology_request guild_with_math_study))
       = [subjects_category, math_study,
          \<lparr>ch_id = lit ''1'', ch_name = dna @ lit ''-Biology'', ch_type = 15,
            ch_parentId = Some (lit ''100'')\<rparr>]
   \<and> roles (snd (handleCreateSubject sample_env biology_request guild_with_math_study))
       = [\<lparr>role_id = lit ''11'', role_name = lit ''biology-helper'',
            role_color = lit ''#00FF00''\<rparr>]
   \<and> map fst (trace (snd (handleCreateSubject sample_env biology_request guild_with_math_study)))
       = [ChannelsCreate (dna @ lit ''-Biology'') 15 (Some (lit ''100'')),
          RolesCreate (lit ''biology-helper'') (lit ''#00FF00''),
          Reply (lit ''Subject https://discord.com/channels/1/1 and role **biology-helper** created!'')
            False []]"
proof -
  have nodup: "\<forall>c\<in>set (channels guild_with_math_study). ch_parentId c = Some (lit ''100'') \<longrightarrow>
      \<not> includes_str (toLowerCase sample_env (ch_name c))
          (toLowerCase sample_env (name biology_options))"
    by (simp add: guild_with_math_study_def empty_guild_def subjects_category_def
        math_study_def sample_env_def biology_options_def ascii_lower_def lit_def)
  have f_ok: "remote guild_with_math_study
      (length (trace (guild_with_math_study\<lparr>categoryChannelId := Some (lit ''100'')\<rparr>)))
      = Resolves (lit ''1'')"
    by (simp add: guild_with_math_study_def empty_guild_def sample_platform_def lit_def)
  have r_ok: "remote guild_with_math_study
      (Suc (length (trace (guild_with_math_study\<lparr>categoryChannelId := Some (lit ''100'')\<rparr>))))
      = Resolves (lit ''11'')"
    by (simp add: guild_with_math_study_def empty_guild_def sample_platform_def lit_def)
  have m_ok: "remote guild_with_math_study
      (Suc (Suc (length (trace (guild_with_math_study\<lparr>categoryChannelId := Some (lit ''100'')\<rparr>)))))
      = Resolves (lit ''111'')"
    by (simp add: guild_with_math_study_def empty_guild_def sample_platform_def lit_def)
  note run = handleCreateSubject_creates [OF biology_valid math_study_category nodup
      f_ok r_ok m_ok refl refl]
  have under: "ch_parentId math_study = Some (lit ''100'')"
    and differs: "\<not> includes_str (ascii_lower (ch_name math_study)) (ascii_lower (lit ''Biology''))"
    by (simp_all add: math_study_def ascii_lower_def lit_def)
  show ?thesis
    unfolding run using biology_valid math_study_category under differs
    by (simp add: guild_with_math_study_def empty_guild_def sample_env_def biology_options_def
        ascii_lower_def lit_def)
qed

text \<open>
  Claim C8. When the validation of the options fails with a message,
  \<open>handleCreateSubject\<close> makes one remote call, the ephemeral reply of
  \<^verbatim>\<open>Error: \<close> followed by the message, and ends with an error: the validation error
  when the reply was delivered, the rejection of the reply otherwise. The state
  differs from the initial one in the trace only: no channel, category or role is
  created, and the category field is not set.
\<close>

theorem handleCreateSubject_invalid:
  assumes invalid: "validate env (optionsObject (options_data ix)) = Inl message"
  shows "handleCreateSubject env ix s =
           (case remote s (length (trace s)) of
              Rejects \<Rightarrow> Inl RemoteError
            | Resolves m \<Rightarrow> Inl (ValidationError message),
            s\<lparr>trace := trace s @ [(Reply (lit ''Error: '' @ message) True [],
                                    remote s (length (trace s)))]\<rparr>)"
  by (cases "remote s (length (trace s))")
     (simp_all add: handleCreateSubject_def getOptions_def invalid send_Resolves send_Rejects)

theorem handleCreateSubject_invalid_witness:
  "validate sample_env (optionsObject (options_data nameless_request))
     = Inl (lit ''name is a required field'')
   \<and> handleCreateSubject sample_env nameless_request guild_with_math_study =
       (Inl (ValidationError (lit ''name is a required field'')),
        guild_with_math_study
          \<lparr>trace := [(Reply (lit ''Error: name is a required field'') True [],
                      Resolves [0x31])]\<rparr>)"
proof -
  have invalid: "validate sample_env (optionsObject (options_data nameless_request))
     = Inl (lit ''name is a required field'')"
    by (simp add: sample_env_def nameless_request_def optionsObject_def sample_validate_def
        lit_def)
  from handleCreateSubject_invalid [OF invalid, of guild_with_math_study] invalid
  show ?thesis
    by (simp add: guild_with_math_study_def empty_guild_def sample_platform_def lit_def)
qed

text \<open>
  Claim C9. When the forum channel is created and the creation of the role is then
  rejected, \<open>handleCreateSubject\<close> ends with that rejection as its error; the new
  channel is still among the channels, and the rejected role creation is the last
  remote call of the run: nothing is undone.
\<close>

theorem handleCreateSubject_no_rollback:
  assumes valid: "validate env (optionsObject (options_data ix)) = Inr opts"
      and cat: "getCategoryId env s = (Inr cid, s1)"
      and forum_ok: "remote s (length (trace s1)) = Resolves fid"
      and role_fails: "remote s (Suc (length (trace s1))) = Rejects"
      and forum: "forum = \<lparr>ch_id = fid, ch_name = emoji opts @ lit ''-'' @ name opts,
                          ch_type = FORUM_CHANNEL_TYPE env, ch_parentId = Some cid\<rparr>"
  shows "handleCreateSubject env ix s =
           (Inl RemoteError,
            s1\<lparr>channels := channels s1 @ [forum],
               trace := trace s1 @
                 [(ChannelsCreate (ch_name forum) (FORUM_CHANNEL_TYPE env) (Some cid),
                   Resolves fid),
                  (RolesCreate (toLowerCase env (name opts) @ lit ''-helper'') (color opts),
                   Rejects)]\<rparr>)"
proof -
  from getCategoryId_frame [OF cat] have fr: "remote s1 = remote s"
    by simp
  have uniq: "isSubjectNameUnique env (name opts) s = (Inr True, s1)"
    by (rule isSubjectNameUnique_True [OF cat])
  let ?s2 = "s1\<lparr>trace := trace s1 @ [(ChannelsCreate (ch_name forum) (FORUM_CHANNEL_TYPE env)
                 (Some cid), Resolves fid)], channels := channels s1 @ [forum]\<rparr>"
  have mk: "createSubjectForum env (name opts) (emoji opts) s1 = (Inr forum, ?s2)"
    by (simp add: createSubjectForum_Resolves [OF cat forum_ok] forum)
  have mkr: "createSubjectRole env (name opts) (color opts) ?s2 =
      (Inl RemoteError, ?s2\<lparr>trace := trace ?s2 @
          [(RolesCreate (toLowerCase env (name opts) @ lit ''-helper'') (color opts), Rejects)]\<rparr>)"
    by (simp add: createSubjectRole_def roles_create_Rejects fr role_fails)
  show ?thesis
    by (simp add: handleCreateSubject_def getOptions_valid [OF valid] uniq mk mkr)
qed

theorem handleCreateSubject_no_rollback_witness:
  "validate sample_env (optionsObject (options_data biology_request)) = Inr biology_options
   \<and> remote guild_rejecting_second 0 = Resolves (lit ''1'')
   \<and> remote guild_rejecting_second 1 = Rejects
   \<and> fst (handleCreateSubject sample_env biology_request guild_rejecting_second)
       = Inl RemoteError
   \<and> channels (snd (handleCreateSubject sample_env biology_request guild_rejecting_second))
       = [subjects_category,
          \<lparr>ch_id = lit ''1'', ch_name = dna @ lit ''-Biology'', ch_type = 15,
            ch_parentId = Some (lit ''100'')\<rparr>]
   \<and> roles (snd (handleCreateSubject sample_env biology_request guild_rejecting_second)) = []
   \<and> trace (snd (handleCreateSubject sample_env biology_request guild_rejecting_second))
       = [(ChannelsCreate (dna @ lit ''-Biology'') 15 (Some (lit ''100'')), Resolves (lit ''1'')),
          (RolesCreate (lit ''biology-helper'') (lit ''#00FF00''), Rejects)]"
proof -
  have f_ok: "remote guild_rejecting_second
      (length (trace (guild_rejecting_second\<lparr>categoryChannelId := Some (lit ''100'')\<rparr>)))
      = Resolves (lit ''1'')"
    by (simp add: guild_rejecting_second_def guild_with_category_def empty_guild_def
        sample_platform_def lit_def)
  have r_fails: "remote guild_rejecting_second
      (Suc (length (trace (guild_rejecting_second\<lparr>categoryChannelId := Some (lit ''100'')\<rparr>))))
      = Rejects"
    by (simp add: guild_rejecting_second_def guild_with_category_def empty_guild_def)
  note run = handleCreateSubject_no_rollback [OF biology_valid rejecting_category f_ok r_fails
      refl]
  show ?thesis
    unfolding run using biology_valid
    by (simp add: guild_rejecting_second_def guild_with_category_def empty_guild_def
        sample_env_def biology_options_def sample_platform_def ascii_lower_def lit_def)
qed

text \<open>The resolver fails only when the platform rejects the creation.\<close>

lemma getCategoryId_error:
  "getCategoryId env s = (Inl e, s1) \<Longrightarrow> e = RemoteError"
  by (auto simp: getCategoryId_def channels_create_def request_remote_eq Let_def
      split: option.splits list.splits outcome.splits)

text \<open>No run of the handler ends with the duplicate error.\<close>

lemma handleCreateSubject_never_duplicate:
  "fst (handleCreateSubject env ix s) \<noteq> Inl SubjectAlreadyExists"
proof (cases "validate env (optionsObject (options_data ix))")
  case (Inl message)
  then show ?thesis
    by (cases "remote s (length (trace s))")
       (simp_all add: handleCreateSubject_def getOptions_def send_Resolves send_Rejects)
next
  case (Inr opts)
  obtain r s1 where cat: "getCategoryId env s = (r, s1)"
    by (cases "getCategoryId env s")
  show ?thesis
  proof (cases r)
    case (Inl e)
    with cat have "e = RemoteError"
      by (auto dest: getCategoryId_error)
    with cat Inl Inr show ?thesis
      by (simp add: handleCreateSubject_def getOptions_valid isSubjectNameUnique_def)
  next
    case cid: (Inr cid)
    with cat have uniq: "isSubjectNameUnique env (name opts) s = (Inr True, s1)"
      by (simp add: isSubjectNameUnique_True)
    from cat cid have again: "getCategoryId env s1 = (Inr cid, s1)"
      by (simp add: getCategoryId_again)
    show ?thesis
      by (simp add: handleCreateSubject_def getOptions_valid [OF Inr] uniq
          createSubjectForum_def again createSubjectRole_def channels_create_def
          roles_create_def send_def request_remote_eq Let_def
          split: outcome.splits)
  qed
qed

text \<open>
  Claim C1, where it fails. No run of \<open>handleCreateSubject\<close> ends with the
  duplicate error, whatever the channels are. At the input of the example, the
  channel \<^verbatim>\<open>calculus-math-study\<close> lies under the category and its name contains
  \<^verbatim>\<open>math\<close>, and a subject \<^verbatim>\<open>Math\<close> is requested: the handler returns normally,
  having created the forum channel and the role.
\<close>

theorem handleCreateSubject_duplicate_is_created:
  "fst (handleCreateSubject env ix s) \<noteq> Inl SubjectAlreadyExists
   \<and> ch_parentId math_study = Some (ch_id subjects_category)
   \<and> includes_str (ch_name math_study) (toLowerCase sample_env (lit ''Math''))
   \<and> fst (handleCreateSubject sample_env math_request guild_with_math_study) = Inr ()
   \<and> channels (snd (handleCreateSubject sample_env math_request guild_with_math_study))
       = [subjects_category, math_study,
          \<lparr>ch_id = lit ''1'', ch_name = dna @ lit ''-Math'', ch_type = 15,
            ch_parentId = Some (lit ''100'')\<rparr>]
   \<and> roles (snd (handleCreateSubject sample_env math_request guild_with_math_study))
       = [\<lparr>role_id = lit ''11'', role_name = lit ''math-helper'',
            role_color = lit ''#00FF00''\<rparr>]"
proof -
  have run: "handleCreateSubject sample_env math_request guild_with_math_study =
      (Inr (),
       guild_with_math_study
         \<lparr>categoryChannelId := Some (lit ''100''),
          channels := [subjects_category, math_study,
            \<lparr>ch_id = lit ''1'', ch_name = dna @ lit ''-Math'', ch_type = 15,
              ch_parentId = Some (lit ''100'')\<rparr>],
          roles := [\<lparr>role_id = lit ''11'', role_name = lit ''math-helper'',
                     role_color = lit ''#00FF00''\<rparr>],
          trace := [(ChannelsCreate (dna @ lit ''-Math'') 15 (Some (lit ''100'')),
                     Resolves (lit ''1'')),
                    (RolesCreate (lit ''math-helper'') (lit ''#00FF00''), Resolves (lit ''11'')),
                    (Reply (lit ''Subject https://discord.com/channels/1/1 and role **math-helper** created!'')
                       False [], Resolves (lit ''111''))]\<rparr>)"
    by (simp add: handleCreateSubject_def getOptions_def isSubjectNameUnique_def
        createSubjectForum_def createSubjectRole_def getCategoryId_def channels_create_def
        roles_create_def send_def request_remote_eq collection_values_def truthy_number_def
        sample_env_def math_request_def optionsObject_def sample_validate_def
        guild_with_math_study_def empty_guild_def subjects_category_def math_study_def
        sample_platform_def ascii_lower_def dna_def lit_def Let_def)
  show ?thesis
    unfolding run using handleCreateSubject_never_duplicate [of env ix s]
    by (simp add: math_study_def subjects_category_def sample_env_def ascii_lower_def lit_def)
qed

section \<open>Becoming a helper\<close>

lemma find_filter_same: "find P (filter P xs) = find P xs"
  by (induction xs) auto

lemma awaitMessageComponent_filter:
  "awaitMessageComponent P (filter P xs) = awaitMessageComponent P xs"
  by (simp add: awaitMessageComponent_def find_filter_same)

lemma awaitMessageComponent_timeout:
  "awaitMessageComponent P xs = Inl e \<longleftrightarrow> e = CollectorTimeout \<and> (\<forall>x\<in>set xs. \<not> P x)"
  by (auto simp: awaitMessageComponent_def find_None_iff_no split: option.splits
      dest: find_Some_mem)

lemma handleBecomeHelper_timeout:
  assumes "remote s (length (trace s)) = Resolves m"
      and "awaitMessageComponent (collectorFilter ix) arrivals = Inl e"
  shows "handleBecomeHelper env ix arrivals s =
     (Inl e, s\<lparr>trace := trace s @ [(selectPrompt env (helperRoles env s), Resolves m)]\<rparr>)"
  using assms by (simp add: handleBecomeHelper_def Let_def send_Resolves)

lemma handleBecomeHelper_frame:
  assumes "handleBecomeHelper env ix arrivals s = (res, s1)"
  shows "roles s1 = roles s \<and> remote s1 = remote s \<and> channels s1 = channels s"
  using assms
  by (auto simp: handleBecomeHelper_def Let_def send_def member_roles_add_def request_remote_eq
      split: sum.splits option.splits outcome.splits if_splits)

lemma handleBecomeHelper_holds_after:
  assumes "remote s (length (trace s)) = Resolves m"
      and "awaitMessageComponent (collectorFilter ix) arrivals = Inr sel"
      and "findSelectedRole (helperRoles env s) (ci_values sel) = Some r"
      and "handleBecomeHelper env ix arrivals s = (Inr (), s1)"
  shows "hr_id r \<in> set (member_roles s1)"
  using assms
  by (auto simp: handleBecomeHelper_def Let_def send_def member_roles_add_def request_remote_eq
      split: outcome.splits if_splits)

text \<open>The run that grants the role, when every remote call resolves.\<close>

lemma handleBecomeHelper_grants:
  assumes prompted: "remote s (length (trace s)) = Resolves m"
      and selected: "awaitMessageComponent (collectorFilter ix) arrivals = Inr sel"
      and found: "findSelectedRole (helperRoles env s) (ci_values sel) = Some r"
      and not_held: "hr_id r \<notin> set (member_roles s)"
      and add_ok: "remote s (Suc (Suc (length (trace s)))) = Resolves a"
      and reply_ok: "remote s (Suc (Suc (Suc (length (trace s))))) = Resolves b"
      and follow_ok: "remote s (Suc (Suc (Suc (Suc (length (trace s)))))) = Resolves c"
  shows "handleBecomeHelper env ix arrivals s =
     (Inr (),
      s\<lparr>member_roles := member_roles s @ [hr_id r],
        trace := trace s @
          [(selectPrompt env (helperRoles env s), Resolves m),
           (DeleteReply, remote s (Suc (length (trace s)))),
           (MemberRolesAdd (hr_id r), Resolves a),
           (ComponentReply
              (lit ''Congrats on becoming a helper in '' @ hr_subject r
               @ lit ''! Thanks for helping out the community <3.'' @ [0x0A]
               @ lit ''You have been promoted to '' @ hr_role r
               @ lit '' and will be pinged whenever someone posts in the ''
               @ hr_subject r @ lit '' forum channel.'') True,
            Resolves b),
           (ComponentFollowUp
              (lit ''Congrats to '' @ user_displayName ix
               @ lit '' for becoming a helper in '' @ hr_subject r @ lit ''!''),
            Resolves c)]\<rparr>)"
  by (simp add: handleBecomeHelper_def Let_def send_Resolves member_roles_add_Resolves
      request_remote_eq assms)

lemma math_helperRoles: "helperRoles sample_env helpers_guild = [math_helper_entry]"
  by (simp add: helperRoles_def helpers_guild_def empty_guild_def math_helper_def
      math_helper_entry_def sample_env_def ascii_upper_def endsWith_def lit_def)

lemma helpers_guild_prompted:
  "remote helpers_guild (length (trace helpers_guild)) = Resolves [0x31]"
  by (simp add: helpers_guild_def empty_guild_def sample_platform_def)

text \<open>
  Claim C2, amended. When the prompt was delivered and no component interaction of
  the requester arrives within the time of the collector, \<open>handleBecomeHelper\<close> ends
  with the time-out of the collector as its error: the \<^verbatim>\<open>catch\<close> block throws it
  again. The prompt is the only remote call of the run; no role is granted and no
  further message is sent.
\<close>

theorem handleBecomeHelper_timeout_rethrown:
  assumes prompted: "remote s (length (trace s)) = Resolves m"
      and nobody: "\<forall>i\<in>set arrivals. ci_user_id i \<noteq> user_id ix"
  shows "handleBecomeHelper env ix arrivals s =
     (Inl CollectorTimeout,
      s\<lparr>trace := trace s @ [(selectPrompt env (helperRoles env s), Resolves m)]\<rparr>)"
proof -
  from nobody have "awaitMessageComponent (collectorFilter ix) arrivals = Inl CollectorTimeout"
    by (simp add: awaitMessageComponent_timeout collectorFilter_def)
  with prompted show ?thesis
    by (rule handleBecomeHelper_timeout)
qed

theorem handleBecomeHelper_timeout_rethrown_witness:
  "remote helpers_guild (length (trace helpers_guild)) = Resolves [0x31]
   \<and> ci_user_id other_selects_math \<noteq> user_id ada
   \<and> handleBecomeHelper sample_env ada [other_selects_math] helpers_guild =
       (Inl CollectorTimeout, helpers_guild\<lparr>trace := [(math_prompt, Resolves [0x31])]\<rparr>)"
proof -
  have other: "ci_user_id other_selects_math \<noteq> user_id ada"
    by (simp add: other_selects_math_def ada_def lit_def)
  then have nobody: "\<forall>i\<in>set [other_selects_math]. ci_user_id i \<noteq> user_id ada"
    by simp
  from handleBecomeHelper_timeout_rethrown [OF helpers_guild_prompted nobody, of sample_env]
    helpers_guild_prompted other
  show ?thesis
    by (simp add: math_helperRoles math_prompt_def) (simp add: helpers_guild_def empty_guild_def)
qed

text \<open>
  Claim C2 as stated fails: with no arrival at all, the run does not return normally
  but ends with the time-out as its error.
\<close>

theorem handleBecomeHelper_timeout_counterexample:
  "fst (handleBecomeHelper sample_env ada [] helpers_guild) = Inl CollectorTimeout
   \<and> fst (handleBecomeHelper sample_env ada [] helpers_guild) \<noteq> Inr ()"
  by (simp add: handleBecomeHelper_def Let_def send_Resolves [OF helpers_guild_prompted]
      awaitMessageComponent_def)

text \<open>
  Claim C6. The result and final state of \<open>handleBecomeHelper\<close> are the same as on
  the arrivals of the requester alone: component interactions of other users have no
  influence. When all arrivals are of other users, the run is the run with no
  arrival, and the roles of the member are unchanged.
\<close>

theorem handleBecomeHelper_scoped:
  "handleBecomeHelper env ix arrivals s
     = handleBecomeHelper env ix (filter (\<lambda>i. ci_user_id i = user_id ix) arrivals) s
   \<and> ((\<forall>i\<in>set arrivals. ci_user_id i \<noteq> user_id ix) \<longrightarrow>
        handleBecomeHelper env ix arrivals s = handleBecomeHelper env ix [] s
        \<and> member_roles (snd (handleBecomeHelper env ix arrivals s)) = member_roles s)"
proof -
  have flt: "collectorFilter ix = (\<lambda>i. ci_user_id i = user_id ix)"
    by (simp add: collectorFilter_def fun_eq_iff)
  have "awaitMessageComponent (collectorFilter ix)
          (filter (\<lambda>i. ci_user_id i = user_id ix) arrivals)
        = awaitMessageComponent (collectorFilter ix) arrivals"
    using awaitMessageComponent_filter [of "collectorFilter ix" arrivals]
    by (simp only: flt)
  then have same: "handleBecomeHelper env ix arrivals s
     = handleBecomeHelper env ix (filter (\<lambda>i. ci_user_id i = user_id ix) arrivals) s"
    by (simp only: handleBecomeHelper_def)
  have others: "handleBecomeHelper env ix arrivals s = handleBecomeHelper env ix [] s
        \<and> member_roles (snd (handleBecomeHelper env ix arrivals s)) = member_roles s"
    if nobody: "\<forall>i\<in>set arrivals. ci_user_id i \<noteq> user_id ix"
  proof -
    from nobody have "filter (\<lambda>i. ci_user_id i = user_id ix) arrivals = []"
      by (simp add: filter_empty_conv)
    with same have eq: "handleBecomeHelper env ix arrivals s = handleBecomeHelper env ix [] s"
      by simp
    have "member_roles (snd (handleBecomeHelper env ix [] s)) = member_roles s"
      by (cases "remote s (length (trace s))")
         (simp_all add: handleBecomeHelper_def Let_def send_Resolves send_Rejects
            awaitMessageComponent_def)
    with eq show ?thesis by simp
  qed
  from same others show ?thesis by blast
qed

theorem handleBecomeHelper_scoped_witness:
  "handleBecomeHelper sample_env ada [other_selects_math, ada_selects_nothing] helpers_guild
     = handleBecomeHelper sample_env ada [ada_selects_nothing] helpers_guild
   \<and> ci_user_id other_selects_math \<noteq> user_id ada
   \<and> handleBecomeHelper sample_env ada [other_selects_math] helpers_guild
       = handleBecomeHelper sample_env ada [] helpers_guild
   \<and> member_roles (snd (handleBecomeHelper sample_env ada [other_selects_math] helpers_guild))
       = member_roles helpers_guild"
proof -
  have other: "ci_user_id other_selects_math \<noteq> user_id ada"
    by (simp add: other_selects_math_def ada_def lit_def)
  then have nobody: "\<forall>i\<in>set [other_selects_math]. ci_user_id i \<noteq> user_id ada"
    by simp
  have only_ada: "filter (\<lambda>i. ci_user_id i = user_id ada) [other_selects_math, ada_selects_nothing]
      = [ada_selects_nothing]"
    by (simp add: other_selects_math_def ada_selects_nothing_def ada_def lit_def)
  from handleBecomeHelper_scoped
         [of sample_env ada "[other_selects_math, ada_selects_nothing]" helpers_guild]
  have "handleBecomeHelper sample_env ada [other_selects_math, ada_selects_nothing] helpers_guild
     = handleBecomeHelper sample_env ada
         (filter (\<lambda>i. ci_user_id i = user_id ada) [other_selects_math, ada_selects_nothing])
         helpers_guild"
    by (rule conjunct1)
  then have first: "handleBecomeHelper sample_env ada [other_selects_math, ada_selects_nothing]
       helpers_guild
     = handleBecomeHelper sample_env ada [ada_selects_nothing] helpers_guild"
    by (simp only: only_ada)
  from handleBecomeHelper_scoped [of sample_env ada "[other_selects_math]" helpers_guild]
  have "(\<forall>i\<in>set [other_selects_math]. ci_user_id i \<noteq> user_id ada) \<longrightarrow>
        handleBecomeHelper sample_env ada [other_selects_math] helpers_guild
          = handleBecomeHelper sample_env ada [] helpers_guild
        \<and> member_roles (snd (handleBecomeHelper sample_env ada [other_selects_math]
             helpers_guild)) = member_roles helpers_guild"
    by (rule conjunct2)
  with nobody have second:
       "handleBecomeHelper sample_env ada [other_selects_math] helpers_guild
          = handleBecomeHelper sample_env ada [] helpers_guild
        \<and> member_roles (snd (handleBecomeHelper sample_env ada [other_selects_math]
             helpers_guild)) = member_roles helpers_guild"
    by (rule rev_mp)
  from first other second show ?thesis
    by (intro conjI) (erule conjunct1 conjunct2 | assumption)+
qed

text \<open>
  Claim C5. Let the prompt be delivered, let the collector resolve with a selection,
  and let the first selected value be the identifier of the helper role \<open>r\<close>. If the
  member already holds \<open>r\<close>, the run returns normally after the prompt, the deletion
  of the prompt and the reply that the role is already held; these are its only
  remote calls, so no role is granted, and the state changes in the trace only.
  Further, whenever a run returns normally, a second run with the same arrivals from
  the state it left is such a run: it reports the role as already held and grants
  nothing.
\<close>

theorem handleBecomeHelper_idempotent:
  assumes prompted: "remote s (length (trace s)) = Resolves m"
      and selected: "awaitMessageComponent (collectorFilter ix) arrivals = Inr sel"
      and found: "findSelectedRole (helperRoles env s) (ci_values sel) = Some r"
  shows "(hr_id r \<in> set (member_roles s) \<longrightarrow>
            handleBecomeHelper env ix arrivals s =
              (Inr (),
               s\<lparr>trace := trace s @
                  [(selectPrompt env (helperRoles env s), Resolves m),
                   (DeleteReply, remote s (Suc (length (trace s)))),
                   (ComponentReply (lit ''You already have the role '' @ hr_role r
                                    @ lit ''! So I won't add it again.'') True,
                    remote s (Suc (Suc (length (trace s)))))]\<rparr>))
       \<and> (\<forall>s1 m1. handleBecomeHelper env ix arrivals s = (Inr (), s1)
              \<and> remote s (length (trace s1)) = Resolves m1 \<longrightarrow>
            handleBecomeHelper env ix arrivals s1 =
              (Inr (),
               s1\<lparr>trace := trace s1 @
                  [(selectPrompt env (helperRoles env s), Resolves m1),
                   (DeleteReply, remote s (Suc (length (trace s1)))),
                   (ComponentReply (lit ''You already have the role '' @ hr_role r
                                    @ lit ''! So I won't add it again.'') True,
                    remote s (Suc (Suc (length (trace s1)))))]\<rparr>))"
proof -
  have held_run: "handleBecomeHelper env ix arrivals t =
              (Inr (),
               t\<lparr>trace := trace t @
                  [(selectPrompt env (helperRoles env s), Resolves k),
                   (DeleteReply, remote s (Suc (length (trace t)))),
                   (ComponentReply (lit ''You already have the role '' @ hr_role r
                                    @ lit ''! So I won't add it again.'') True,
                    remote s (Suc (Suc (length (trace t)))))]\<rparr>)"
    if "roles t = roles s" "remote t = remote s" "remote s (length (trace t)) = Resolves k"
       "hr_id r \<in> set (member_roles t)" for t k
  proof -
    from that(1) have hrs: "helperRoles env t = helperRoles env s"
      by (simp add: helperRoles_def)
    from that(2-4) show ?thesis
      by (simp add: handleBecomeHelper_def Let_def hrs send_Resolves selected found
          request_remote_eq)
  qed
  have first: "hr_id r \<in> set (member_roles s) \<longrightarrow>
            handleBecomeHelper env ix arrivals s =
              (Inr (),
               s\<lparr>trace := trace s @
                  [(selectPrompt env (helperRoles env s), Resolves m),
                   (DeleteReply, remote s (Suc (length (trace s)))),
                   (ComponentReply (lit ''You already have the role '' @ hr_role r
                                    @ lit ''! So I won't add it again.'') True,
                    remote s (Suc (Suc (length (trace s)))))]\<rparr>)"
    using held_run [of s m] prompted by simp
  have second: "handleBecomeHelper env ix arrivals s1 =
              (Inr (),
               s1\<lparr>trace := trace s1 @
                  [(selectPrompt env (helperRoles env s), Resolves m1),
                   (DeleteReply, remote s (Suc (length (trace s1)))),
                   (ComponentReply (lit ''You already have the role '' @ hr_role r
                                    @ lit ''! So I won't add it again.'') True,
                    remote s (Suc (Suc (length (trace s1)))))]\<rparr>)"
    if run: "handleBecomeHelper env ix arrivals s = (Inr (), s1)"
      and again: "remote s (length (trace s1)) = Resolves m1" for s1 m1
  proof -
    from handleBecomeHelper_frame [OF run] have fr: "roles s1 = roles s" "remote s1 = remote s"
      by simp_all
    have "hr_id r \<in> set (member_roles s1)"
      by (rule handleBecomeHelper_holds_after [OF prompted selected found run])
    with fr again show ?thesis
      by (rule held_run)
  qed
  from first second show ?thesis by blast
qed

theorem handleBecomeHelper_idempotent_witness:
  "remote helpers_guild (length (trace helpers_guild)) = Resolves [0x31]
   \<and> awaitMessageComponent (collectorFilter ada) [ada_selects_math] = Inr ada_selects_math
   \<and> findSelectedRole (helperRoles sample_env helpers_guild) (ci_values ada_selects_math)
       = Some math_helper_entry
   \<and> handleBecomeHelper sample_env ada [ada_selects_math] helpers_guild
       = (Inr (), guild_after_grant)
   \<and> member_roles guild_after_grant = [lit ''300'']
   \<and> remote helpers_guild (length (trace guild_after_grant)) = Resolves (replicate 6 0x31)
   \<and> handleBecomeHelper sample_env ada [ada_selects_math] guild_after_grant
       = (Inr (),
          guild_after_grant
            \<lparr>trace := trace guild_after_grant @
               [(math_prompt, Resolves (replicate 6 0x31)),
                (DeleteReply, Resolves (replicate 7 0x31)),
                (already_math, Resolves (replicate 8 0x31))]\<rparr>)"
proof -
  have selected: "awaitMessageComponent (collectorFilter ada) [ada_selects_math]
      = Inr ada_selects_math"
    by (simp add: awaitMessageComponent_def collectorFilter_def ada_def ada_selects_math_def)
  have found: "findSelectedRole (helperRoles sample_env helpers_guild)
      (ci_values ada_selects_math) = Some math_helper_entry"
    by (simp add: math_helperRoles findSelectedRole_def ada_selects_math_def
        math_helper_entry_def)
  have not_held: "hr_id math_helper_entry \<notin> set (member_roles helpers_guild)"
    by (simp add: helpers_guild_def empty_guild_def)
  have add_ok: "remote helpers_guild (Suc (Suc (length (trace helpers_guild))))
      = Resolves (replicate 3 0x31)"
    and reply_ok: "remote helpers_guild (Suc (Suc (Suc (length (trace helpers_guild)))))
      = Resolves (replicate 4 0x31)"
    and follow_ok: "remote helpers_guild (Suc (Suc (Suc (Suc (length (trace helpers_guild))))))
      = Resolves (replicate 5 0x31)"
    by (simp_all add: helpers_guild_def empty_guild_def sample_platform_def eval_nat_numeral)
  note first = handleBecomeHelper_grants [OF helpers_guild_prompted selected found not_held
      add_ok reply_ok follow_ok]
  have "handleBecomeHelper sample_env ada [ada_selects_math] helpers_guild
      = (Inr (), guild_after_grant)
    \<and> member_roles guild_after_grant = [lit ''300'']
    \<and> length (trace guild_after_grant) = 5"
    unfolding guild_after_grant_def first
    by (simp add: helpers_guild_def empty_guild_def math_helper_entry_def)
  then have run: "handleBecomeHelper sample_env ada [ada_selects_math] helpers_guild
      = (Inr (), guild_after_grant)"
    and held: "member_roles guild_after_grant = [lit ''300'']"
    and len: "length (trace guild_after_grant) = 5"
    by simp_all
  have again: "remote helpers_guild (length (trace guild_after_grant))
      = Resolves (replicate 6 0x31)"
    by (simp add: len helpers_guild_def empty_guild_def sample_platform_def eval_nat_numeral)
  from handleBecomeHelper_idempotent [OF helpers_guild_prompted selected found]
  have "\<forall>s1 m1. handleBecomeHelper sample_env ada [ada_selects_math] helpers_guild = (Inr (), s1)
              \<and> remote helpers_guild (length (trace s1)) = Resolves m1 \<longrightarrow>
            handleBecomeHelper sample_env ada [ada_selects_math] s1 =
              (Inr (),
               s1\<lparr>trace := trace s1 @
                  [(selectPrompt sample_env (helperRoles sample_env helpers_guild), Resolves m1),
                   (DeleteReply, remote helpers_guild (Suc (length (trace s1)))),
                   (ComponentReply (lit ''You already have the role ''
                                    @ hr_role math_helper_entry
                                    @ lit ''! So I won't add it again.'') True,
                    remote helpers_guild (Suc (Suc (length (trace s1)))))]\<rparr>)"
    by (rule conjunct2)
  with run again have "handleBecomeHelper sample_env ada [ada_selects_math] guild_after_grant =
              (Inr (),
               guild_after_grant\<lparr>trace := trace guild_after_grant @
                  [(selectPrompt sample_env (helperRoles sample_env helpers_guild),
                    Resolves (replicate 6 0x31)),
                   (DeleteReply, remote helpers_guild (Suc (length (trace guild_after_grant)))),
                   (ComponentReply (lit ''You already have the role ''
                                    @ hr_role math_helper_entry
                                    @ lit ''! So I won't add it again.'') True,
                    remote helpers_guild (Suc (Suc (length (trace guild_after_grant)))))]\<rparr>)"
    by blast
  then have second: "handleBecomeHelper sample_env ada [ada_selects_math] guild_after_grant
       = (Inr (),
          guild_after_grant
            \<lparr>trace := trace guild_after_grant @
               [(math_prompt, Resolves (replicate 6 0x31)),
                (DeleteReply, Resolves (replicate 7 0x31)),
                (already_math, Resolves (replicate 8 0x31))]\<rparr>)"
    by (simp add: len math_helperRoles math_prompt_def already_math_def)
       (simp add: math_helper_entry_def helpers_guild_def empty_guild_def sample_platform_def
          lit_def eval_nat_numeral)
  from helpers_guild_prompted selected found run held again second show ?thesis
    by (intro conjI)
qed

text \<open>
  Claim C10. The select menu of the prompt has a minimum of zero values. When the
  prompt was delivered and the collector resolves with a selection that has no value,
  no helper role is found and \<open>handleBecomeHelper\<close> ends with a TypeError, after
  the prompt and its deletion and before any reply to the selection.
\<close>

theorem handleBecomeHelper_empty_selection:
  assumes prompted: "remote s (length (trace s)) = Resolves m"
      and selected: "awaitMessageComponent (collectorFilter ix) arrivals = Inr sel"
      and empty: "ci_values sel = []"
  shows "min_values (subjectSelect env (helperRoles env s)) = 0
       \<and> handleBecomeHelper env ix arrivals s =
           (Inl TypeError,
            s\<lparr>trace := trace s @
               [(selectPrompt env (helperRoles env s), Resolves m),
                (DeleteReply, remote s (Suc (length (trace s))))]\<rparr>)"
  using assms
  by (simp add: handleBecomeHelper_def Let_def send_Resolves request_remote_eq
      findSelectedRole_def subjectSelect_def)

theorem handleBecomeHelper_empty_selection_witness:
  "remote helpers_guild (length (trace helpers_guild)) = Resolves [0x31]
   \<and> awaitMessageComponent (collectorFilter ada) [ada_selects_nothing] = Inr ada_selects_nothing
   \<and> ci_values ada_selects_nothing = []
   \<and> min_values (subjectSelect sample_env [math_helper_entry]) = 0
   \<and> handleBecomeHelper sample_env ada [ada_selects_nothing] helpers_guild =
       (Inl TypeError,
        helpers_guild\<lparr>trace := [(math_prompt, Resolves [0x31]),
                                 (DeleteReply, Resolves [0x31, 0x31])]\<rparr>)"
proof -
  have selected: "awaitMessageComponent (collectorFilter ada) [ada_selects_nothing]
      = Inr ada_selects_nothing"
    by (simp add: awaitMessageComponent_def collectorFilter_def ada_def
        ada_selects_nothing_def)
  have empty: "ci_values ada_selects_nothing = []"
    by (simp add: ada_selects_nothing_def)
  from handleBecomeHelper_empty_selection [OF helpers_guild_prompted selected empty,
      of sample_env]
    helpers_guild_prompted selected empty
  show ?thesis
    by (simp add: math_helperRoles math_prompt_def)
       (simp add: helpers_guild_def empty_guild_def sample_platform_def)
qed

section \<open>Pinging the helpers\<close>

text \<open>
  Claim C3, where it fails. The handler does the same whatever \<^verbatim>\<open>isHelperThread\<close>
  answers. For a thread that \<^verbatim>\<open>isHelperThread\<close> does not recognise, it mentions the
  role that \<^verbatim>\<open>helperThreadToRoleName\<close> returned, and ends with a TypeError when
  that function returned nothing; the refusal is not sent.
\<close>

theorem handleWhipSlaves_ignores_isHelperThread:
  "handleWhipSlaves (\<lambda>t. False) helperThreadToRoleName thread s
     = handleWhipSlaves (\<lambda>t. True) helperThreadToRoleName thread s
   \<and> handleWhipSlaves (\<lambda>t. False) (\<lambda>t. Inr (Some math_helper)) math_study empty_guild
       = (Inr (),
          empty_guild
            \<lparr>trace := [(DeferReply, Resolves [0x31]),
                       (EditReply (lit ''<@&300>, get to work! ''
                                   @ [0xD80C, 0xDC13, 0xD80C, 0xDC1D]),
                        Resolves [0x31, 0x31])]\<rparr>)
   \<and> handleWhipSlaves (\<lambda>t. False) (\<lambda>t. Inr None) math_study empty_guild
       = (Inl TypeError, empty_guild\<lparr>trace := [(DeferReply, Resolves [0x31])]\<rparr>)"
proof (intro conjI)
  show "handleWhipSlaves (\<lambda>t. False) helperThreadToRoleName thread s
     = handleWhipSlaves (\<lambda>t. True) helperThreadToRoleName thread s"
    unfolding handleWhipSlaves_def truthy_function_def by (rule refl)
  show "handleWhipSlaves (\<lambda>t. False) (\<lambda>t. Inr (Some math_helper)) math_study empty_guild
       = (Inr (),
          empty_guild
            \<lparr>trace := [(DeferReply, Resolves [0x31]),
                       (EditReply (lit ''<@&300>, get to work! ''
                                   @ [0xD80C, 0xDC13, 0xD80C, 0xDC1D]),
                        Resolves [0x31, 0x31])]\<rparr>)"
    by (simp add: handleWhipSlaves_def truthy_function_def send_def request_remote_eq
        empty_guild_def sample_platform_def math_helper_def lit_def)
  show "handleWhipSlaves (\<lambda>t. False) (\<lambda>t. Inr None) math_study empty_guild
       = (Inl TypeError, empty_guild\<lparr>trace := [(DeferReply, Resolves [0x31])]\<rparr>)"
    by (simp add: handleWhipSlaves_def truthy_function_def send_def request_remote_eq
        empty_guild_def sample_platform_def)
qed

end
